theory Spec2Isabelle
  imports Complex_Main "HOL-Library.Sublist"
begin

section \<open>JavaScript strings and values\<close>

text \<open>
  The front end (\<^verbatim>\<open>frontend/src/App.js\<close>) works on JavaScript strings. A string is
  modelled as a \<^typ>\<open>string\<close>, one character per code unit. \<^verbatim>\<open>toUpperCase\<close> and
  \<^verbatim>\<open>toLowerCase\<close> are modelled on the ASCII letters, every other character is kept;
  the Unicode case mappings of characters outside ASCII are not part of the model.
  The general theorems below speak about the upper-cased name \<open>toUpperCase filename\<close>
  and never look into the case mapping itself.
\<close>

definition toUpperChar :: "char \<Rightarrow> char" where
  "toUpperChar c =
     (let n = (of_char c :: nat)
      in if 97 \<le> n \<and> n \<le> 122 then char_of (n - 32) else c)"

definition toLowerChar :: "char \<Rightarrow> char" where
  "toLowerChar c =
     (let n = (of_char c :: nat)
      in if 65 \<le> n \<and> n \<le> 90 then char_of (n + 32) else c)"

definition toUpperCase :: "string \<Rightarrow> string" where
  "toUpperCase s = map toUpperChar s"

definition toLowerCase :: "string \<Rightarrow> string" where
  "toLowerCase s = map toLowerChar s"

text \<open>
  \<^verbatim>\<open>s.includes(t)\<close>: \<open>t\<close> occurs in \<open>s\<close> as a contiguous run of characters. The
  search tries every start position from the left.
\<close>

fun includesStr :: "string \<Rightarrow> string \<Rightarrow> bool" where
  "includesStr [] t = (t = [])"
| "includesStr (c # s) t = (prefix t (c # s) \<or> includesStr s t)"

text \<open>
  A value read from a JavaScript object whose expected type is \<open>'a\<close>: the key may be
  missing (\<^verbatim>\<open>undefined\<close>) or hold \<^verbatim>\<open>null\<close>.
\<close>

datatype 'a js = Undefined | Null | Val 'a

text \<open>A JavaScript number: a real number or \<^verbatim>\<open>NaN\<close>. The rounding of IEEE doubles
  and the infinities are not modelled.\<close>

datatype number = NaN | Num real

text \<open>\<^verbatim>\<open>ToNumber\<close> on a value that is a number, \<^verbatim>\<open>null\<close> or \<^verbatim>\<open>undefined\<close>.\<close>

fun toNumber :: "number js \<Rightarrow> number" where
  "toNumber Undefined = NaN"
| "toNumber Null = Num 0"
| "toNumber (Val n) = n"

text \<open>\<^verbatim>\<open>a <= b\<close> and \<^verbatim>\<open>a * b\<close> on numbers: a comparison with \<^verbatim>\<open>NaN\<close> is false, a
  product with \<^verbatim>\<open>NaN\<close> is \<^verbatim>\<open>NaN\<close>.\<close>

fun lessEq :: "number \<Rightarrow> number \<Rightarrow> bool" where
  "lessEq (Num a) (Num b) = (a \<le> b)"
| "lessEq _ _ = False"

fun times_num :: "number \<Rightarrow> number \<Rightarrow> number" where
  "times_num (Num a) (Num b) = Num (a * b)"
| "times_num _ _ = NaN"

text \<open>\<^verbatim>\<open>v ?? d\<close>: the default replaces \<^verbatim>\<open>undefined\<close> and \<^verbatim>\<open>null\<close> only.\<close>

fun nullish :: "'a js \<Rightarrow> 'a js \<Rightarrow> 'a js" where
  "nullish (Val x) d = Val x"
| "nullish _ d = d"

section \<open>View code from the file name\<close>

text \<open>
  \<^verbatim>\<open>extractViewCodeFromFilename\<close> (App.js): an \<^verbatim>\<open>if / else if\<close> chain over the
  upper-cased name; \<^verbatim>\<open>null\<close> is \<open>None\<close>.
\<close>

definition extractViewCodeFromFilename :: "string \<Rightarrow> string option" where
  "extractViewCodeFromFilename filename =
     (let upperName = toUpperCase filename in
      if includesStr upperName ''LMLO'' \<or> includesStr upperName ''LEFT_MLO''
           \<or> includesStr upperName ''L-MLO'' then Some ''L-MLO''
      else if includesStr upperName ''RMLO'' \<or> includesStr upperName ''RIGHT_MLO''
           \<or> includesStr upperName ''R-MLO'' then Some ''R-MLO''
      else if includesStr upperName ''LCC'' \<or> includesStr upperName ''LEFT_CC''
           \<or> includesStr upperName ''L-CC'' then Some ''LCC''
      else if includesStr upperName ''RCC'' \<or> includesStr upperName ''RIGHT_CC''
           \<or> includesStr upperName ''R-CC'' then Some ''RCC''
      else if includesStr upperName ''MLO'' then Some ''MLO''
      else if includesStr upperName ''CC'' then Some ''CC''
      else None)"

section \<open>Application state\<close>

text \<open>The \<^verbatim>\<open>view_analysis\<close> object as the two upload handlers build it. The object
  the server sends may carry further keys, which the handlers never write.\<close>

record viewAnalysis =
  view_code :: string
  laterality :: string
  laterality_code :: string
  image_quality :: string
  quality_score :: "number js"

text \<open>An object whose keys this code does not look into: keys with their JSON text.\<close>

type_synonym json_object = "(string \<times> string) list"

text \<open>The \<^verbatim>\<open>results\<close> state: \<^verbatim>\<open>{}\<close> at the start, a key that is not there reads
  as \<^verbatim>\<open>undefined\<close>.\<close>

record results =
  original :: "string js"
  overlay :: "string js"
  heatmap :: "string js"
  bbox :: "string js"
  cancer_type :: "string js"
  malignant :: "number js"
  benign :: "number js"
  risk :: "string js"
  riskIcon :: "string js"
  riskColor :: "string js"
  result :: "string js"
  confidence :: "number js"
  rawScore :: "number js"
  threshold :: "number js"
  stats :: "json_object js"
  findings :: "json_object js"
  view_analysis :: "viewAnalysis js"

definition emptyResults :: results where
  "emptyResults =
     \<lparr>original = Undefined, overlay = Undefined, heatmap = Undefined, bbox = Undefined,
      cancer_type = Undefined, malignant = Undefined, benign = Undefined,
      risk = Undefined, riskIcon = Undefined, riskColor = Undefined, result = Undefined,
      confidence = Undefined, rawScore = Undefined, threshold = Undefined,
      stats = Undefined, findings = Undefined, view_analysis = Undefined\<rparr>"

text \<open>A \<^verbatim>\<open>File\<close>; the handlers read its name only.\<close>

record js_file =
  file_name :: string

text \<open>The \<^verbatim>\<open>useState\<close> variables of the component that the upload path writes.\<close>

record app_state =
  results :: results
  fileState :: "js_file js"
  dragActive :: bool
  analysisDone :: bool
  visualTab :: string
  detailsTab :: string
  isAnalyzing :: bool
  statusMessage :: string
  errorMessage :: string

definition initialState :: app_state where
  "initialState =
     \<lparr>results = emptyResults, fileState = Null, dragActive = False, analysisDone = False,
      visualTab = ''overlay'', detailsTab = ''clinical'', isAnalyzing = False,
      statusMessage = '''', errorMessage = ''''\<rparr>"

text \<open>\<^verbatim>\<open>analyzeFile\<close> up to its first \<^verbatim>\<open>await\<close>: the part that runs inside the
  handler's own turn. (The status text ends in an ellipsis character in the source,
  written here as three dots.)\<close>

definition analyzeFile_start :: "js_file \<Rightarrow> app_state \<Rightarrow> app_state" where
  "analyzeFile_start selectedFile st =
     st\<lparr>isAnalyzing := True,
        statusMessage := ''Uploading image for analysis...'',
        errorMessage := ''''\<rparr>"

text \<open>
  \<^verbatim>\<open>handleFileChange\<close>: the argument is \<^verbatim>\<open>e.target.files\<close>. \<^verbatim>\<open>if (viewCode)\<close> holds
  for a string that is not empty. The \<^verbatim>\<open>FileReader\<close> callback that saves the upload
  history runs later and writes another state variable; it is left out.
\<close>

definition handleFileChange :: "js_file list \<Rightarrow> app_state \<Rightarrow> app_state" where
  "handleFileChange files st =
     (case files of
        [] \<Rightarrow> st
      | selectedFile # _ \<Rightarrow>
          let st1 = st\<lparr>fileState := Val selectedFile\<rparr>;
              st2 =
                (case extractViewCodeFromFilename (file_name selectedFile) of
                   None \<Rightarrow> st1
                 | Some viewCode \<Rightarrow>
                     if viewCode = [] then st1
                     else st1\<lparr>results := (results st1)\<lparr>view_analysis := Val
                       \<lparr>view_code = viewCode,
                        laterality =
                          (if includesStr viewCode ''L'' \<and> \<not> includesStr viewCode ''R''
                           then ''Left'' else ''Right''),
                        laterality_code =
                          (if includesStr viewCode ''L'' \<and> \<not> includesStr viewCode ''R''
                           then ''L'' else ''R''),
                        image_quality = ''Analyzing...'',
                        quality_score = Null\<rparr>\<rparr>\<rparr>)
          in analyzeFile_start selectedFile st2)"

text \<open>\<^verbatim>\<open>handleDrop\<close>: the argument is \<^verbatim>\<open>e.dataTransfer.files\<close>.\<close>

definition handleDrop :: "js_file list \<Rightarrow> app_state \<Rightarrow> app_state" where
  "handleDrop files st0 =
     (let st = st0\<lparr>dragActive := False\<rparr> in
      case files of
        [] \<Rightarrow> st
      | droppedFile # _ \<Rightarrow>
          let st1 = st\<lparr>fileState := Val droppedFile\<rparr>;
              st2 =
                (case extractViewCodeFromFilename (file_name droppedFile) of
                   None \<Rightarrow> st1
                 | Some viewCode \<Rightarrow>
                     if viewCode = [] then st1
                     else st1\<lparr>results := (results st1)\<lparr>view_analysis := Val
                       \<lparr>view_code = viewCode,
                        laterality =
                          (if includesStr viewCode ''L'' \<and> \<not> includesStr viewCode ''R''
                           then ''Left'' else ''Right''),
                        laterality_code =
                          (if includesStr viewCode ''L'' \<and> \<not> includesStr viewCode ''R''
                           then ''L'' else ''R''),
                        image_quality = ''Analyzing...'',
                        quality_score = Null\<rparr>\<rparr>\<rparr>)
          in analyzeFile_start droppedFile st2)"

section \<open>Risk class of the displayed result\<close>

text \<open>\<^verbatim>\<open>getRiskClass\<close> reads \<^verbatim>\<open>results.risk?.toLowerCase() || ""\<close> and tests it in the
  order of the source.\<close>

definition getRiskClass :: "results \<Rightarrow> string" where
  "getRiskClass res =
     (let risk' = (case risk res of Val r \<Rightarrow> toLowerCase r | _ \<Rightarrow> '''') in
      if includesStr risk' ''very high risk'' then ''risk-high''
      else if includesStr risk' ''high risk'' \<and> \<not> includesStr risk' ''moderate''
        then ''risk-high''
      else if includesStr risk' ''moderate'' then ''risk-moderate''
      else if includesStr risk' ''very low risk'' then ''risk-low''
      else if includesStr risk' ''low risk'' then ''risk-low''
      else '''')"

text \<open>The five labels of the Risk Assessment Guide list of the page, in its order.\<close>

definition riskLabels :: "string list" where
  "riskLabels =
     [''Very Low Risk'', ''Low Risk'', ''Moderate Risk'', ''High Risk'', ''Very High Risk'']"

section \<open>From the response of /analyze to the result record\<close>

record images =
  images_original :: "string js"
  images_overlay :: "string js"
  images_heatmap_only :: "string js"
  images_bbox :: "string js"
  images_cancer_type :: "string js"

text \<open>The parsed response body \<^verbatim>\<open>data\<close>; the field \<open>data_k\<close> is \<^verbatim>\<open>data.k\<close>.\<close>

record analyze_response =
  data_images :: "images js"
  data_malignant_prob :: "number js"
  data_benign_prob :: "number js"
  data_risk_level :: "string js"
  data_risk_icon :: "string js"
  data_risk_color :: "string js"
  data_result :: "string js"
  data_confidence :: "number js"
  data_threshold :: "number js"
  data_stats :: "json_object js"
  data_findings :: "json_object js"
  data_view_analysis :: "viewAnalysis js"

definition emptyImages :: images where
  "emptyImages =
     \<lparr>images_original = Undefined, images_overlay = Undefined,
      images_heatmap_only = Undefined, images_bbox = Undefined,
      images_cancer_type = Undefined\<rparr>"

text \<open>A response body without any key, \<^verbatim>\<open>{}\<close>.\<close>

definition emptyResponse :: analyze_response where
  "emptyResponse =
     \<lparr>data_images = Undefined, data_malignant_prob = Undefined,
      data_benign_prob = Undefined, data_risk_level = Undefined,
      data_risk_icon = Undefined, data_risk_color = Undefined, data_result = Undefined,
      data_confidence = Undefined, data_threshold = Undefined, data_stats = Undefined,
      data_findings = Undefined, data_view_analysis = Undefined\<rparr>"

text \<open>\<^verbatim>\<open>asDataUrl\<close>: a string that is not empty gets the data-URL prefix, anything
  else becomes \<^verbatim>\<open>null\<close>.\<close>

definition asDataUrl :: "string js \<Rightarrow> string js" where
  "asDataUrl v =
     (case v of
        Val s \<Rightarrow> if s = [] then Null else Val (''data:image/png;base64,'' @ s)
      | _ \<Rightarrow> Null)"

text \<open>
  \<^verbatim>\<open>data.confidence !== undefined && data.confidence <= 1
     ? data.confidence * 100 : data.confidence ?? null\<close>
\<close>

definition confidencePercent :: "number js \<Rightarrow> number js" where
  "confidencePercent c =
     (if c \<noteq> Undefined \<and> lessEq (toNumber c) (Num 1)
      then Val (times_num (toNumber c) (Num 100))
      else nullish c Null)"

text \<open>The object \<^verbatim>\<open>resultData\<close> of \<^verbatim>\<open>analyzeFile\<close>. \<^verbatim>\<open>x || d\<close> on an object takes
  the default for \<^verbatim>\<open>undefined\<close> and \<^verbatim>\<open>null\<close>.\<close>

definition resultData :: "analyze_response \<Rightarrow> results" where
  "resultData data =
     (let images = (case data_images data of Val i \<Rightarrow> i | _ \<Rightarrow> emptyImages);
          confidencePercent' = confidencePercent (data_confidence data)
      in \<lparr>original = asDataUrl (images_original images),
          overlay = asDataUrl (images_overlay images),
          heatmap = asDataUrl (images_heatmap_only images),
          bbox = asDataUrl (images_bbox images),
          cancer_type = asDataUrl (images_cancer_type images),
          malignant = nullish (data_malignant_prob data) Null,
          benign = nullish (data_benign_prob data) Null,
          risk = nullish (data_risk_level data) (Val ''Unavailable''),
          riskIcon = data_risk_icon data,
          riskColor = data_risk_color data,
          result = nullish (data_result data) (Val ''Analysis Result''),
          confidence = confidencePercent',
          rawScore = nullish (data_confidence data) Null,
          threshold = nullish (data_threshold data) (Val (Num 0.5)),
          stats = (case data_stats data of Val s \<Rightarrow> Val s | _ \<Rightarrow> Val []),
          findings = (case data_findings data of Val f \<Rightarrow> Val f | _ \<Rightarrow> Null),
          view_analysis =
            (case data_view_analysis data of Val v \<Rightarrow> Val v | _ \<Rightarrow> Null)\<rparr>)"

text \<open>\<^verbatim>\<open>analyzeFile\<close> after a response with status ok: the state it leaves, the
  \<^verbatim>\<open>finally\<close> block included.\<close>

definition analyzeFile_success :: "analyze_response \<Rightarrow> app_state \<Rightarrow> app_state" where
  "analyzeFile_success data st =
     st\<lparr>results := resultData data,
        analysisDone := True,
        visualTab := ''overlay'',
        detailsTab := ''clinical'',
        statusMessage := ''Analysis complete.'',
        isAnalyzing := False\<rparr>"

section \<open>The vocabulary of the spec\<close>

text \<open>
  The spec's reading of the file-name rule: a fixed list of entries in the order
  L-MLO, R-MLO, LCC, RCC, generic MLO, generic CC, each with its tokens and its view
  code; an entry matches an upper-cased name that contains one of its tokens, and the
  first entry that matches wins.
\<close>

definition entryLMLO :: "string list \<times> string" where
  "entryLMLO = ([''LMLO'', ''LEFT_MLO'', ''L-MLO''], ''L-MLO'')"

definition entryRMLO :: "string list \<times> string" where
  "entryRMLO = ([''RMLO'', ''RIGHT_MLO'', ''R-MLO''], ''R-MLO'')"

definition entryLCC :: "string list \<times> string" where
  "entryLCC = ([''LCC'', ''LEFT_CC'', ''L-CC''], ''LCC'')"

definition entryRCC :: "string list \<times> string" where
  "entryRCC = ([''RCC'', ''RIGHT_CC'', ''R-CC''], ''RCC'')"

definition entryMLO :: "string list \<times> string" where
  "entryMLO = ([''MLO''], ''MLO'')"

definition entryCC :: "string list \<times> string" where
  "entryCC = ([''CC''], ''CC'')"

definition viewVocabulary :: "(string list \<times> string) list" where
  "viewVocabulary = [entryLMLO, entryRMLO, entryLCC, entryRCC, entryMLO, entryCC]"

definition entryMatches :: "string \<Rightarrow> string list \<times> string \<Rightarrow> bool" where
  "entryMatches upperName e = list_ex (includesStr upperName) (fst e)"

definition firstMatch :: "string \<Rightarrow> string option" where
  "firstMatch upperName = map_option snd (find (entryMatches upperName) viewVocabulary)"

text \<open>
  The side tokens of the vocabulary: the tokens of the four entries that name a side.
  A separate letter L or R in a name is not one of them; where a statement is about
  such letters too, it speaks of the letters themselves.
\<close>

definition hasLeftToken :: "string \<Rightarrow> bool" where
  "hasLeftToken upperName =
     (entryMatches upperName entryLMLO \<or> entryMatches upperName entryLCC)"

definition hasRightToken :: "string \<Rightarrow> bool" where
  "hasRightToken upperName =
     (entryMatches upperName entryRMLO \<or> entryMatches upperName entryRCC)"

section \<open>Facts about the string model\<close>

lemma includesStr_sublist: "includesStr s t \<longleftrightarrow> sublist t s"
  by (induction s) (auto simp: sublist_Cons_right)

lemma includesStr_char: "includesStr s [c] \<longleftrightarrow> c \<in> set s"
  by (induction s) auto

lemmas entry_defs =
  entryLMLO_def entryRMLO_def entryLCC_def entryRCC_def entryMLO_def entryCC_def
  entryMatches_def

lemma extractViewCode_firstMatch:
  "extractViewCodeFromFilename filename = firstMatch (toUpperCase filename)"
  by (simp add: extractViewCodeFromFilename_def firstMatch_def viewVocabulary_def entry_defs Let_def)

lemma find_first_index:
  assumes "i < length xs" and "P (xs ! i)" and "\<forall>j<i. \<not> P (xs ! j)"
  shows "find P xs = Some (xs ! i)"
  using assms by (auto simp: find_Some_iff)

section \<open>First match wins\<close>

text \<open>
  Claim C1. The view code taken from a file name is that of the earliest entry, in
  the order L-MLO, R-MLO, LCC, RCC, generic MLO, generic CC, one of whose tokens the
  upper-cased name contains: when entry \<open>i\<close> matches and no entry before it does, the
  code of entry \<open>i\<close> is returned, whatever later entries match as well.
\<close>

theorem extractViewCode_first_match_wins:
  assumes "i < length viewVocabulary"
    and "entryMatches (toUpperCase filename) (viewVocabulary ! i)"
    and "\<forall>j<i. \<not> entryMatches (toUpperCase filename) (viewVocabulary ! j)"
  shows "extractViewCodeFromFilename filename = Some (snd (viewVocabulary ! i))"
proof -
  have "find (entryMatches (toUpperCase filename)) viewVocabulary = Some (viewVocabulary ! i)"
    using assms by (rule find_first_index)
  then show ?thesis
    by (simp add: extractViewCode_firstMatch firstMatch_def)
qed

lemma upper_scan_lmlo_cc: "toUpperCase ''scan_lmlo_cc.png'' = ''SCAN_LMLO_CC.PNG''"
  by code_simp

lemma upper_rcc_mlo_03: "toUpperCase ''rcc_mlo_03.jpg'' = ''RCC_MLO_03.JPG''"
  by code_simp

text \<open>
  Two names with tokens of more than one entry: an L-MLO token and a CC token give
  L-MLO; an RCC token and a generic MLO token give RCC.
\<close>

theorem extractViewCode_first_match_wins_witness:
  "entryMatches (toUpperCase ''scan_lmlo_cc.png'') (viewVocabulary ! 0)
   \<and> entryMatches (toUpperCase ''scan_lmlo_cc.png'') (viewVocabulary ! 5)
   \<and> extractViewCodeFromFilename ''scan_lmlo_cc.png'' = Some ''L-MLO''
   \<and> entryMatches (toUpperCase ''rcc_mlo_03.jpg'') (viewVocabulary ! 3)
   \<and> entryMatches (toUpperCase ''rcc_mlo_03.jpg'') (viewVocabulary ! 4)
   \<and> \<not> entryMatches (toUpperCase ''rcc_mlo_03.jpg'') (viewVocabulary ! 0)
   \<and> \<not> entryMatches (toUpperCase ''rcc_mlo_03.jpg'') (viewVocabulary ! 1)
   \<and> \<not> entryMatches (toUpperCase ''rcc_mlo_03.jpg'') (viewVocabulary ! 2)
   \<and> extractViewCodeFromFilename ''rcc_mlo_03.jpg'' = Some ''RCC''"
proof -
  have a0: "entryMatches (toUpperCase ''scan_lmlo_cc.png'') (viewVocabulary ! 0)"
    by (simp add: upper_scan_lmlo_cc viewVocabulary_def entry_defs)
  have a5: "entryMatches (toUpperCase ''scan_lmlo_cc.png'') (viewVocabulary ! 5)"
    by (simp add: upper_scan_lmlo_cc viewVocabulary_def entry_defs)
  have a: "extractViewCodeFromFilename ''scan_lmlo_cc.png'' = Some ''L-MLO''"
    using extractViewCode_first_match_wins [of 0 "''scan_lmlo_cc.png''"] a0
    by (simp add: viewVocabulary_def entry_defs)
  have b3: "entryMatches (toUpperCase ''rcc_mlo_03.jpg'') (viewVocabulary ! 3)"
    by (simp add: upper_rcc_mlo_03 viewVocabulary_def entry_defs)
  have b4: "entryMatches (toUpperCase ''rcc_mlo_03.jpg'') (viewVocabulary ! 4)"
    by (simp add: upper_rcc_mlo_03 viewVocabulary_def entry_defs)
  have b0: "\<not> entryMatches (toUpperCase ''rcc_mlo_03.jpg'') (viewVocabulary ! 0)"
    by (simp add: upper_rcc_mlo_03 viewVocabulary_def entry_defs)
  have b1: "\<not> entryMatches (toUpperCase ''rcc_mlo_03.jpg'') (viewVocabulary ! 1)"
    by (simp add: upper_rcc_mlo_03 viewVocabulary_def entry_defs)
  have b2: "\<not> entryMatches (toUpperCase ''rcc_mlo_03.jpg'') (viewVocabulary ! 2)"
    by (simp add: upper_rcc_mlo_03 viewVocabulary_def entry_defs)
  have lt3: "\<forall>j<3::nat. \<not> entryMatches (toUpperCase ''rcc_mlo_03.jpg'') (viewVocabulary ! j)"
  proof (intro allI impI)
    fix j :: nat
    assume "j < 3"
    then have "j = 0 \<or> j = 1 \<or> j = 2" by arith
    then show "\<not> entryMatches (toUpperCase ''rcc_mlo_03.jpg'') (viewVocabulary ! j)"
      using b0 b1 b2 by auto
  qed
  have b: "extractViewCodeFromFilename ''rcc_mlo_03.jpg'' = Some ''RCC''"
    using extractViewCode_first_match_wins [of 3 "''rcc_mlo_03.jpg''"] b3 lt3
    by (simp add: viewVocabulary_def entry_defs)
  show ?thesis using a0 a5 a b3 b4 b0 b1 b2 b by simp
qed

section \<open>Facts about the handlers\<close>

lemma extractViewCode_range:
  "extractViewCodeFromFilename filename
     \<in> {None, Some ''L-MLO'', Some ''R-MLO'', Some ''LCC'', Some ''RCC'', Some ''MLO'', Some ''CC''}"
  by (simp add: extractViewCodeFromFilename_def Let_def)

lemma extractViewCode_nonempty:
  "extractViewCodeFromFilename filename = Some vc \<Longrightarrow> vc \<noteq> []"
  using extractViewCode_range [of filename] by auto

lemma handleFileChange_results:
  "results (handleFileChange (f # fs) st) =
     (case extractViewCodeFromFilename (file_name f) of
        None \<Rightarrow> results st
      | Some viewCode \<Rightarrow>
          (results st)\<lparr>view_analysis := Val
             \<lparr>view_code = viewCode,
              laterality =
                (if includesStr viewCode ''L'' \<and> \<not> includesStr viewCode ''R''
                 then ''Left'' else ''Right''),
              laterality_code =
                (if includesStr viewCode ''L'' \<and> \<not> includesStr viewCode ''R''
                 then ''L'' else ''R''),
              image_quality = ''Analyzing...'',
              quality_score = Null\<rparr>\<rparr>)"
proof (cases "extractViewCodeFromFilename (file_name f)")
  case None
  then show ?thesis
    by (simp add: handleFileChange_def analyzeFile_start_def)
next
  case (Some vc)
  then have "vc \<noteq> []" by (rule extractViewCode_nonempty)
  with Some show ?thesis
    by (simp add: handleFileChange_def analyzeFile_start_def)
qed

lemma handleDrop_results:
  "results (handleDrop (f # fs) st) =
     (case extractViewCodeFromFilename (file_name f) of
        None \<Rightarrow> results st
      | Some viewCode \<Rightarrow>
          (results st)\<lparr>view_analysis := Val
             \<lparr>view_code = viewCode,
              laterality =
                (if includesStr viewCode ''L'' \<and> \<not> includesStr viewCode ''R''
                 then ''Left'' else ''Right''),
              laterality_code =
                (if includesStr viewCode ''L'' \<and> \<not> includesStr viewCode ''R''
                 then ''L'' else ''R''),
              image_quality = ''Analyzing...'',
              quality_score = Null\<rparr>\<rparr>)"
proof (cases "extractViewCodeFromFilename (file_name f)")
  case None
  then show ?thesis
    by (simp add: handleDrop_def analyzeFile_start_def)
next
  case (Some vc)
  then have "vc \<noteq> []" by (rule extractViewCode_nonempty)
  with Some show ?thesis
    by (simp add: handleDrop_def analyzeFile_start_def)
qed

section \<open>The example of the spec\<close>

lemma upper_patient: "toUpperCase ''patient_L-MLO_01.png'' = ''PATIENT_L-MLO_01.PNG''"
  by code_simp

lemma extract_patient: "extractViewCodeFromFilename ''patient_L-MLO_01.png'' = Some ''L-MLO''"
  by (simp add: extractViewCodeFromFilename_def upper_patient)

text \<open>
  Claim C4. The file name \<^verbatim>\<open>patient_L-MLO_01.png\<close> gets the view code L-MLO, the
  laterality Left and the laterality code L, on the file-select path and on the
  drag-and-drop path, from any state.
\<close>

theorem patient_L_MLO_01_classified:
  "extractViewCodeFromFilename ''patient_L-MLO_01.png'' = Some ''L-MLO''
   \<and> view_analysis (results (handleFileChange [\<lparr>file_name = ''patient_L-MLO_01.png''\<rparr>] st))
       = Val \<lparr>view_code = ''L-MLO'', laterality = ''Left'', laterality_code = ''L'',
              image_quality = ''Analyzing...'', quality_score = Null\<rparr>
   \<and> view_analysis (results (handleDrop [\<lparr>file_name = ''patient_L-MLO_01.png''\<rparr>] st))
       = Val \<lparr>view_code = ''L-MLO'', laterality = ''Left'', laterality_code = ''L'',
              image_quality = ''Analyzing...'', quality_score = Null\<rparr>"
  by (simp add: handleFileChange_results handleDrop_results extract_patient)

section \<open>Closed range of the view code\<close>

text \<open>
  Claim C5. For every file name, \<^verbatim>\<open>extractViewCodeFromFilename\<close> returns one of the
  six view codes or \<^verbatim>\<open>null\<close> (the model is a total function: on a string no step
  of the source can throw); and when it returns \<^verbatim>\<open>null\<close> neither upload handler
  touches the results, so no provisional view analysis is attached.
\<close>

theorem extractViewCode_total_closed:
  "extractViewCodeFromFilename filename
     \<in> {None, Some ''L-MLO'', Some ''R-MLO'', Some ''LCC'', Some ''RCC'', Some ''MLO'', Some ''CC''}
   \<and> (extractViewCodeFromFilename (file_name f) = None \<longrightarrow>
        results (handleFileChange (f # fs) st) = results st
        \<and> results (handleDrop (f # fs) st) = results st)"
  using extractViewCode_range [of filename]
  by (simp add: handleFileChange_results handleDrop_results)

lemma upper_scan_0042: "toUpperCase ''scan_0042.png'' = ''SCAN_0042.PNG''"
  by code_simp

text \<open>A name without any token, uploaded into the initial state.\<close>

theorem extractViewCode_total_closed_witness:
  "extractViewCodeFromFilename ''scan_0042.png'' = None
   \<and> results (handleFileChange [\<lparr>file_name = ''scan_0042.png''\<rparr>] initialState) = emptyResults
   \<and> results (handleDrop [\<lparr>file_name = ''scan_0042.png''\<rparr>] initialState) = emptyResults"
proof -
  have n: "extractViewCodeFromFilename ''scan_0042.png'' = None"
    by (simp add: extractViewCodeFromFilename_def upper_scan_0042)
  show ?thesis
    using n extractViewCode_total_closed
      [of "''scan_0042.png''" "\<lparr>file_name = ''scan_0042.png''\<rparr>" "[]" initialState]
    by (simp add: initialState_def)
qed

section \<open>Laterality of the provisional view analysis\<close>

text \<open>
  Claim C2. For every view code \<open>vc\<close> extracted from a file name, the record that
  either handler attaches carries that code, its laterality is Left exactly when
  \<open>vc\<close> contains the letter L and does not contain the letter R, and Right otherwise;
  its laterality code is L or R in the same way.
\<close>

theorem laterality_from_view_code:
  assumes "extractViewCodeFromFilename (file_name f) = Some vc"
  shows "\<exists>va. view_analysis (results (handleFileChange (f # fs) st)) = Val va
           \<and> view_analysis (results (handleDrop (f # fs) st)) = Val va
           \<and> view_code va = vc
           \<and> (laterality va = ''Left'' \<longleftrightarrow> CHR ''L'' \<in> set vc \<and> CHR ''R'' \<notin> set vc)
           \<and> (laterality va = ''Right'' \<longleftrightarrow> \<not> (CHR ''L'' \<in> set vc \<and> CHR ''R'' \<notin> set vc))
           \<and> (laterality_code va = ''L'' \<longleftrightarrow> CHR ''L'' \<in> set vc \<and> CHR ''R'' \<notin> set vc)
           \<and> (laterality_code va = ''R'' \<longleftrightarrow> \<not> (CHR ''L'' \<in> set vc \<and> CHR ''R'' \<notin> set vc))"
  using assms
  by (simp add: handleFileChange_results handleDrop_results includesStr_char)

text \<open>An RCC name (no letter L in the code) and an LCC name (L without R).\<close>

lemma upper_case7_rcc: "toUpperCase ''case7_rcc.jpg'' = ''CASE7_RCC.JPG''"
  by code_simp

lemma upper_left_cc_2: "toUpperCase ''left_cc_2.png'' = ''LEFT_CC_2.PNG''"
  by code_simp

theorem laterality_from_view_code_witness:
  "extractViewCodeFromFilename ''case7_rcc.jpg'' = Some ''RCC''
   \<and> (\<exists>va. view_analysis (results (handleFileChange [\<lparr>file_name = ''case7_rcc.jpg''\<rparr>] initialState)) = Val va
         \<and> view_analysis (results (handleDrop [\<lparr>file_name = ''case7_rcc.jpg''\<rparr>] initialState)) = Val va
         \<and> view_code va = ''RCC'' \<and> laterality va = ''Right'' \<and> laterality_code va = ''R'')
   \<and> extractViewCodeFromFilename ''left_cc_2.png'' = Some ''LCC''
   \<and> (\<exists>va. view_analysis (results (handleFileChange [\<lparr>file_name = ''left_cc_2.png''\<rparr>] initialState)) = Val va
         \<and> view_analysis (results (handleDrop [\<lparr>file_name = ''left_cc_2.png''\<rparr>] initialState)) = Val va
         \<and> view_code va = ''LCC'' \<and> laterality va = ''Left'' \<and> laterality_code va = ''L'')"
proof -
  have r: "extractViewCodeFromFilename (file_name \<lparr>file_name = ''case7_rcc.jpg''\<rparr>) = Some ''RCC''"
    by (simp add: extractViewCodeFromFilename_def upper_case7_rcc)
  have l: "extractViewCodeFromFilename (file_name \<lparr>file_name = ''left_cc_2.png''\<rparr>) = Some ''LCC''"
    by (simp add: extractViewCodeFromFilename_def upper_left_cc_2)
  show ?thesis
    using r l
      laterality_from_view_code [OF r, of "[]" initialState]
      laterality_from_view_code [OF l, of "[]" initialState]
    by simp blast
qed

text \<open>
  Claim C8. Every provisional view-analysis record built from a file name, by the
  file-select handler or by the drop handler, has laterality Left if and only if its
  laterality code is L, and laterality Right if and only if its laterality code is R.
\<close>

theorem provisional_laterality_invariant:
  assumes "extractViewCodeFromFilename (file_name f) \<noteq> None"
    and "view_analysis (results (handleFileChange (f # fs) st)) = Val va
         \<or> view_analysis (results (handleDrop (f # fs) st)) = Val va"
  shows "(laterality va = ''Left'' \<longleftrightarrow> laterality_code va = ''L'')
         \<and> (laterality va = ''Right'' \<longleftrightarrow> laterality_code va = ''R'')"
  using assms
  by (auto simp: handleFileChange_results handleDrop_results split: if_splits)

lemma upper_r_mlo: "toUpperCase ''exam_R-MLO.dcm'' = ''EXAM_R-MLO.DCM''"
  by code_simp

theorem provisional_laterality_invariant_witness:
  "extractViewCodeFromFilename ''exam_R-MLO.dcm'' = Some ''R-MLO''
   \<and> view_analysis (results (handleDrop [\<lparr>file_name = ''exam_R-MLO.dcm''\<rparr>] initialState))
       = Val \<lparr>view_code = ''R-MLO'', laterality = ''Right'', laterality_code = ''R'',
              image_quality = ''Analyzing...'', quality_score = Null\<rparr>
   \<and> (laterality \<lparr>view_code = ''R-MLO'', laterality = ''Right'', laterality_code = ''R'',
              image_quality = ''Analyzing...'', quality_score = Null\<rparr> = ''Left''
        \<longleftrightarrow> laterality_code \<lparr>view_code = ''R-MLO'', laterality = ''Right'', laterality_code = ''R'',
              image_quality = ''Analyzing...'', quality_score = Null\<rparr> = ''L'')
   \<and> (laterality \<lparr>view_code = ''R-MLO'', laterality = ''Right'', laterality_code = ''R'',
              image_quality = ''Analyzing...'', quality_score = Null\<rparr> = ''Right''
        \<longleftrightarrow> laterality_code \<lparr>view_code = ''R-MLO'', laterality = ''Right'', laterality_code = ''R'',
              image_quality = ''Analyzing...'', quality_score = Null\<rparr> = ''R'')"
proof -
  let ?f = "\<lparr>file_name = ''exam_R-MLO.dcm''\<rparr>"
  let ?va = "\<lparr>view_code = ''R-MLO'', laterality = ''Right'', laterality_code = ''R'',
              image_quality = ''Analyzing...'', quality_score = Null\<rparr>"
  have e: "extractViewCodeFromFilename ''exam_R-MLO.dcm'' = Some ''R-MLO''"
    by (simp add: extractViewCodeFromFilename_def upper_r_mlo)
  then have e': "extractViewCodeFromFilename (file_name ?f) \<noteq> None" by simp
  have d: "view_analysis (results (handleDrop [?f] initialState)) = Val ?va"
    by (simp add: handleDrop_results e)
  from provisional_laterality_invariant [OF e', of "[]" initialState ?va] d
  have "(laterality ?va = ''Left'' \<longleftrightarrow> laterality_code ?va = ''L'')
         \<and> (laterality ?va = ''Right'' \<longleftrightarrow> laterality_code ?va = ''R'')"
    by blast
  with e d show ?thesis by blast
qed

lemma extractViewCode_by_entries:
  "extractViewCodeFromFilename filename =
     (let u = toUpperCase filename in
      if entryMatches u entryLMLO then Some ''L-MLO''
      else if entryMatches u entryRMLO then Some ''R-MLO''
      else if entryMatches u entryLCC then Some ''LCC''
      else if entryMatches u entryRCC then Some ''RCC''
      else if includesStr u ''MLO'' then Some ''MLO''
      else if includesStr u ''CC'' then Some ''CC''
      else None)"
  by (simp add: extractViewCodeFromFilename_def entry_defs Let_def)

section \<open>Views without a side\<close>

text \<open>
  Claim C9. A file name whose upper-cased form has no left and no right side token
  and contains the generic token MLO gets the view code MLO with laterality Left and
  laterality code L; one that contains only the generic token CC gets the view code
  CC with laterality Right and laterality code R. Both handlers do so.
\<close>

theorem generic_view_laterality:
  assumes "\<not> hasLeftToken (toUpperCase (file_name f))"
    and "\<not> hasRightToken (toUpperCase (file_name f))"
  shows "(includesStr (toUpperCase (file_name f)) ''MLO'' \<longrightarrow>
            view_analysis (results (handleFileChange (f # fs) st))
              = Val \<lparr>view_code = ''MLO'', laterality = ''Left'', laterality_code = ''L'',
                     image_quality = ''Analyzing...'', quality_score = Null\<rparr>
          \<and> view_analysis (results (handleDrop (f # fs) st))
              = Val \<lparr>view_code = ''MLO'', laterality = ''Left'', laterality_code = ''L'',
                     image_quality = ''Analyzing...'', quality_score = Null\<rparr>)
       \<and> (includesStr (toUpperCase (file_name f)) ''CC''
            \<and> \<not> includesStr (toUpperCase (file_name f)) ''MLO'' \<longrightarrow>
            view_analysis (results (handleFileChange (f # fs) st))
              = Val \<lparr>view_code = ''CC'', laterality = ''Right'', laterality_code = ''R'',
                     image_quality = ''Analyzing...'', quality_score = Null\<rparr>
          \<and> view_analysis (results (handleDrop (f # fs) st))
              = Val \<lparr>view_code = ''CC'', laterality = ''Right'', laterality_code = ''R'',
                     image_quality = ''Analyzing...'', quality_score = Null\<rparr>)"
proof -
  let ?u = "toUpperCase (file_name f)"
  from assms have no: "\<not> entryMatches ?u entryLMLO" "\<not> entryMatches ?u entryRMLO"
    "\<not> entryMatches ?u entryLCC" "\<not> entryMatches ?u entryRCC"
    by (simp_all add: hasLeftToken_def hasRightToken_def)
  have mlo: "extractViewCodeFromFilename (file_name f) = Some ''MLO''"
    if "includesStr ?u ''MLO''"
    using no that by (simp add: extractViewCode_by_entries)
  have cc: "extractViewCodeFromFilename (file_name f) = Some ''CC''"
    if "includesStr ?u ''CC''" "\<not> includesStr ?u ''MLO''"
    using no that by (simp add: extractViewCode_by_entries)
  show ?thesis
    using mlo cc by (auto simp: handleFileChange_results handleDrop_results)
qed

lemma upper_scan_mlo: "toUpperCase ''scan_mlo.png'' = ''SCAN_MLO.PNG''"
  by code_simp

lemma upper_scan_cc: "toUpperCase ''scan_cc.png'' = ''SCAN_CC.PNG''"
  by code_simp

theorem generic_view_laterality_witness:
  "\<not> hasLeftToken (toUpperCase ''scan_mlo.png'')
   \<and> \<not> hasRightToken (toUpperCase ''scan_mlo.png'')
   \<and> includesStr (toUpperCase ''scan_mlo.png'') ''MLO''
   \<and> view_analysis (results (handleFileChange [\<lparr>file_name = ''scan_mlo.png''\<rparr>] initialState))
       = Val \<lparr>view_code = ''MLO'', laterality = ''Left'', laterality_code = ''L'',
              image_quality = ''Analyzing...'', quality_score = Null\<rparr>
   \<and> \<not> hasLeftToken (toUpperCase ''scan_cc.png'')
   \<and> \<not> hasRightToken (toUpperCase ''scan_cc.png'')
   \<and> includesStr (toUpperCase ''scan_cc.png'') ''CC''
   \<and> \<not> includesStr (toUpperCase ''scan_cc.png'') ''MLO''
   \<and> view_analysis (results (handleDrop [\<lparr>file_name = ''scan_cc.png''\<rparr>] initialState))
       = Val \<lparr>view_code = ''CC'', laterality = ''Right'', laterality_code = ''R'',
              image_quality = ''Analyzing...'', quality_score = Null\<rparr>"
proof -
  let ?m = "\<lparr>file_name = ''scan_mlo.png''\<rparr>"
  let ?c = "\<lparr>file_name = ''scan_cc.png''\<rparr>"
  have m1: "\<not> hasLeftToken (toUpperCase (file_name ?m))"
    by (simp add: upper_scan_mlo hasLeftToken_def entry_defs)
  have m2: "\<not> hasRightToken (toUpperCase (file_name ?m))"
    by (simp add: upper_scan_mlo hasRightToken_def entry_defs)
  have m3: "includesStr (toUpperCase (file_name ?m)) ''MLO''"
    by (simp add: upper_scan_mlo)
  have c1: "\<not> hasLeftToken (toUpperCase (file_name ?c))"
    by (simp add: upper_scan_cc hasLeftToken_def entry_defs)
  have c2: "\<not> hasRightToken (toUpperCase (file_name ?c))"
    by (simp add: upper_scan_cc hasRightToken_def entry_defs)
  have c3: "includesStr (toUpperCase (file_name ?c)) ''CC''"
    by (simp add: upper_scan_cc)
  have c4: "\<not> includesStr (toUpperCase (file_name ?c)) ''MLO''"
    by (simp add: upper_scan_cc)
  show ?thesis
    using m1 m2 m3 c1 c2 c3 c4
      generic_view_laterality [OF m1 m2, of "[]" initialState]
      generic_view_laterality [OF c1 c2, of "[]" initialState]
    by simp
qed

section \<open>Names with tokens of both sides\<close>

lemma firstMatch_range:
  "firstMatch u
     \<in> {None, Some ''L-MLO'', Some ''R-MLO'', Some ''LCC'', Some ''RCC'', Some ''MLO'', Some ''CC''}"
  by (simp add: firstMatch_def viewVocabulary_def entry_defs)

text \<open>
  Claim C3, as amended. For every file name whose upper-cased form contains an L and
  an R, whether inside tokens of the vocabulary or as separate letters, the
  laterality is not always Right: it is the one of the view code of the earliest
  matching entry. It is Left (code L) when that entry is L-MLO, LCC or generic MLO,
  and Right (code R) when it is R-MLO, RCC or generic CC; when no entry matches,
  neither handler attaches a view analysis.
\<close>

theorem both_sides_laterality:
  assumes "includesStr (toUpperCase (file_name f)) ''L''"
    and "includesStr (toUpperCase (file_name f)) ''R''"
  shows "firstMatch (toUpperCase (file_name f))
           \<in> {None, Some ''L-MLO'', Some ''R-MLO'', Some ''LCC'', Some ''RCC'', Some ''MLO'', Some ''CC''}
       \<and> (firstMatch (toUpperCase (file_name f)) \<in> {Some ''L-MLO'', Some ''LCC'', Some ''MLO''} \<longrightarrow>
            (\<exists>va. view_analysis (results (handleFileChange (f # fs) st)) = Val va
                \<and> view_analysis (results (handleDrop (f # fs) st)) = Val va
                \<and> Some (view_code va) = firstMatch (toUpperCase (file_name f))
                \<and> laterality va = ''Left'' \<and> laterality_code va = ''L''))
       \<and> (firstMatch (toUpperCase (file_name f)) \<in> {Some ''R-MLO'', Some ''RCC'', Some ''CC''} \<longrightarrow>
            (\<exists>va. view_analysis (results (handleFileChange (f # fs) st)) = Val va
                \<and> view_analysis (results (handleDrop (f # fs) st)) = Val va
                \<and> Some (view_code va) = firstMatch (toUpperCase (file_name f))
                \<and> laterality va = ''Right'' \<and> laterality_code va = ''R''))
       \<and> (firstMatch (toUpperCase (file_name f)) = None \<longrightarrow>
            results (handleFileChange (f # fs) st) = results st
            \<and> results (handleDrop (f # fs) st) = results st)"
proof -
  let ?m = "firstMatch (toUpperCase (file_name f))"
  have e: "extractViewCodeFromFilename (file_name f) = ?m"
    by (rule extractViewCode_firstMatch)
  have left: "\<exists>va. view_analysis (results (handleFileChange (f # fs) st)) = Val va
                \<and> view_analysis (results (handleDrop (f # fs) st)) = Val va
                \<and> Some (view_code va) = ?m
                \<and> laterality va = ''Left'' \<and> laterality_code va = ''L''"
    if "?m = Some ''L-MLO'' \<or> ?m = Some ''LCC'' \<or> ?m = Some ''MLO''"
    using that
  proof (elim disjE)
    assume m: "?m = Some ''L-MLO''"
    show ?thesis unfolding handleFileChange_results handleDrop_results e m by simp
  next
    assume m: "?m = Some ''LCC''"
    show ?thesis unfolding handleFileChange_results handleDrop_results e m by simp
  next
    assume m: "?m = Some ''MLO''"
    show ?thesis unfolding handleFileChange_results handleDrop_results e m by simp
  qed
  have right: "\<exists>va. view_analysis (results (handleFileChange (f # fs) st)) = Val va
                \<and> view_analysis (results (handleDrop (f # fs) st)) = Val va
                \<and> Some (view_code va) = ?m
                \<and> laterality va = ''Right'' \<and> laterality_code va = ''R''"
    if "?m = Some ''R-MLO'' \<or> ?m = Some ''RCC'' \<or> ?m = Some ''CC''"
    using that
  proof (elim disjE)
    assume m: "?m = Some ''R-MLO''"
    show ?thesis unfolding handleFileChange_results handleDrop_results e m by simp
  next
    assume m: "?m = Some ''RCC''"
    show ?thesis unfolding handleFileChange_results handleDrop_results e m by simp
  next
    assume m: "?m = Some ''CC''"
    show ?thesis unfolding handleFileChange_results handleDrop_results e m by simp
  qed
  have none: "results (handleFileChange (f # fs) st) = results st
            \<and> results (handleDrop (f # fs) st) = results st"
    if m: "?m = None"
    unfolding handleFileChange_results handleDrop_results e m by simp
  show ?thesis
    using firstMatch_range [of "toUpperCase (file_name f)"] left right none
    by simp
qed

lemma upper_l_mlo_rcc: "toUpperCase ''L-MLO_RCC.png'' = ''L-MLO_RCC.PNG''"
  by code_simp

lemma upper_l_mlo_r: "toUpperCase ''L-MLO_R.png'' = ''L-MLO_R.PNG''"
  by code_simp

lemma upper_rcc_l: "toUpperCase ''RCC_L.png'' = ''RCC_L.PNG''"
  by code_simp

lemma upper_lr_scan: "toUpperCase ''LR_scan.png'' = ''LR_SCAN.PNG''"
  by code_simp

text \<open>
  That such a name always resolves to Right fails: a name with the tokens L-MLO and
  RCC, and a name with L-MLO and a separate R, both get the view code L-MLO and the
  laterality Left.
\<close>

theorem both_sides_right_counterexample:
  "hasLeftToken (toUpperCase ''L-MLO_RCC.png'')
   \<and> hasRightToken (toUpperCase ''L-MLO_RCC.png'')
   \<and> view_analysis (results (handleFileChange [\<lparr>file_name = ''L-MLO_RCC.png''\<rparr>] initialState))
       = Val \<lparr>view_code = ''L-MLO'', laterality = ''Left'', laterality_code = ''L'',
              image_quality = ''Analyzing...'', quality_score = Null\<rparr>
   \<and> includesStr (toUpperCase ''L-MLO_R.png'') ''L-MLO''
   \<and> includesStr (toUpperCase ''L-MLO_R.png'') ''_R.''
   \<and> view_analysis (results (handleFileChange [\<lparr>file_name = ''L-MLO_R.png''\<rparr>] initialState))
       = Val \<lparr>view_code = ''L-MLO'', laterality = ''Left'', laterality_code = ''L'',
              image_quality = ''Analyzing...'', quality_score = Null\<rparr>"
proof -
  have "extractViewCodeFromFilename ''L-MLO_RCC.png'' = Some ''L-MLO''"
    by (simp add: extractViewCodeFromFilename_def upper_l_mlo_rcc)
  moreover have "extractViewCodeFromFilename ''L-MLO_R.png'' = Some ''L-MLO''"
    by (simp add: extractViewCodeFromFilename_def upper_l_mlo_r)
  ultimately show ?thesis
    by (simp add: handleFileChange_results upper_l_mlo_rcc upper_l_mlo_r
        hasLeftToken_def hasRightToken_def entry_defs)
qed

text \<open>
  A name with L-MLO and a separate R (Left), a name with RCC and a separate L
  (Right), and a name with both letters and no view token (nothing attached).
\<close>

theorem both_sides_laterality_witness:
  "includesStr (toUpperCase ''L-MLO_R.png'') ''L''
   \<and> includesStr (toUpperCase ''L-MLO_R.png'') ''R''
   \<and> firstMatch (toUpperCase ''L-MLO_R.png'') = Some ''L-MLO''
   \<and> (\<exists>va. view_analysis (results (handleFileChange [\<lparr>file_name = ''L-MLO_R.png''\<rparr>] initialState)) = Val va
         \<and> view_analysis (results (handleDrop [\<lparr>file_name = ''L-MLO_R.png''\<rparr>] initialState)) = Val va
         \<and> laterality va = ''Left'' \<and> laterality_code va = ''L'')
   \<and> includesStr (toUpperCase ''RCC_L.png'') ''L''
   \<and> includesStr (toUpperCase ''RCC_L.png'') ''R''
   \<and> firstMatch (toUpperCase ''RCC_L.png'') = Some ''RCC''
   \<and> (\<exists>va. view_analysis (results (handleFileChange [\<lparr>file_name = ''RCC_L.png''\<rparr>] initialState)) = Val va
         \<and> view_analysis (results (handleDrop [\<lparr>file_name = ''RCC_L.png''\<rparr>] initialState)) = Val va
         \<and> laterality va = ''Right'' \<and> laterality_code va = ''R'')
   \<and> includesStr (toUpperCase ''LR_scan.png'') ''L''
   \<and> includesStr (toUpperCase ''LR_scan.png'') ''R''
   \<and> firstMatch (toUpperCase ''LR_scan.png'') = None
   \<and> results (handleFileChange [\<lparr>file_name = ''LR_scan.png''\<rparr>] initialState) = emptyResults
   \<and> results (handleDrop [\<lparr>file_name = ''LR_scan.png''\<rparr>] initialState) = emptyResults"
proof -
  let ?a = "\<lparr>file_name = ''L-MLO_R.png''\<rparr>"
  let ?b = "\<lparr>file_name = ''RCC_L.png''\<rparr>"
  let ?c = "\<lparr>file_name = ''LR_scan.png''\<rparr>"
  have a1: "includesStr (toUpperCase (file_name ?a)) ''L''"
    and a2: "includesStr (toUpperCase (file_name ?a)) ''R''"
    and a3: "firstMatch (toUpperCase (file_name ?a)) = Some ''L-MLO''"
    by (simp_all add: upper_l_mlo_r firstMatch_def viewVocabulary_def entry_defs)
  have b1: "includesStr (toUpperCase (file_name ?b)) ''L''"
    and b2: "includesStr (toUpperCase (file_name ?b)) ''R''"
    and b3: "firstMatch (toUpperCase (file_name ?b)) = Some ''RCC''"
    by (simp_all add: upper_rcc_l firstMatch_def viewVocabulary_def entry_defs)
  have c1: "includesStr (toUpperCase (file_name ?c)) ''L''"
    and c2: "includesStr (toUpperCase (file_name ?c)) ''R''"
    and c3: "firstMatch (toUpperCase (file_name ?c)) = None"
    by (simp_all add: upper_lr_scan firstMatch_def viewVocabulary_def entry_defs)
  have ra: "\<exists>va. view_analysis (results (handleFileChange [?a] initialState)) = Val va
         \<and> view_analysis (results (handleDrop [?a] initialState)) = Val va
         \<and> laterality va = ''Left'' \<and> laterality_code va = ''L''"
    using both_sides_laterality [OF a1 a2, of "[]" initialState] a3 by simp blast
  have rb: "\<exists>va. view_analysis (results (handleFileChange [?b] initialState)) = Val va
         \<and> view_analysis (results (handleDrop [?b] initialState)) = Val va
         \<and> laterality va = ''Right'' \<and> laterality_code va = ''R''"
    using both_sides_laterality [OF b1 b2, of "[]" initialState] b3 by simp blast
  have rc: "results (handleFileChange [?c] initialState) = emptyResults
         \<and> results (handleDrop [?c] initialState) = emptyResults"
    using both_sides_laterality [OF c1 c2, of "[]" initialState] c3
    by (simp add: initialState_def)
  show ?thesis
    using a1 a2 a3 ra b1 b2 b3 rb c1 c2 c3 rc by simp
qed

section \<open>Risk labels\<close>

lemma lower_labels:
  "toLowerCase ''Very Low Risk'' = ''very low risk''"
  "toLowerCase ''Low Risk'' = ''low risk''"
  "toLowerCase ''Moderate Risk'' = ''moderate risk''"
  "toLowerCase ''High Risk'' = ''high risk''"
  "toLowerCase ''Very High Risk'' = ''very high risk''"
  by code_simp+

lemma getRiskClass_labels:
  "risk res = Val ''Very Low Risk'' \<Longrightarrow> getRiskClass res = ''risk-low''"
  "risk res = Val ''Low Risk'' \<Longrightarrow> getRiskClass res = ''risk-low''"
  "risk res = Val ''Moderate Risk'' \<Longrightarrow> getRiskClass res = ''risk-moderate''"
  "risk res = Val ''High Risk'' \<Longrightarrow> getRiskClass res = ''risk-high''"
  "risk res = Val ''Very High Risk'' \<Longrightarrow> getRiskClass res = ''risk-high''"
  by (simp_all add: getRiskClass_def lower_labels)

text \<open>
  On an arbitrary risk string the order of the tests decides: the class is risk-high
  with ``very high risk'', or with ``high risk'' and no ``moderate''; risk-moderate with
  ``moderate'' and no ``very high risk''; risk-low with ``low risk'' and none of the
  others.
\<close>

lemma getRiskClass_by_content:
  assumes "risk res = Val r"
  shows "(includesStr (toLowerCase r) ''very high risk''
            \<or> includesStr (toLowerCase r) ''high risk'' \<and> \<not> includesStr (toLowerCase r) ''moderate''
          \<longrightarrow> getRiskClass res = ''risk-high'')
       \<and> (includesStr (toLowerCase r) ''moderate'' \<and> \<not> includesStr (toLowerCase r) ''very high risk''
          \<longrightarrow> getRiskClass res = ''risk-moderate'')
       \<and> ((includesStr (toLowerCase r) ''very low risk'' \<or> includesStr (toLowerCase r) ''low risk'')
            \<and> \<not> includesStr (toLowerCase r) ''moderate'' \<and> \<not> includesStr (toLowerCase r) ''high risk''
            \<and> \<not> includesStr (toLowerCase r) ''very high risk''
          \<longrightarrow> getRiskClass res = ''risk-low'')"
  using assms by (simp add: getRiskClass_def Let_def)

text \<open>
  Claim C6. Each of the five risk labels is mapped to exactly one display class, and
  never to the empty one: a label containing ``very low risk'' or ``low risk'' to
  risk-low, one containing ``moderate'' to risk-moderate, one containing ``high risk''
  or ``very high risk'' and not ``moderate'' to risk-high (the tests are made on the
  lower-cased label).
\<close>

theorem riskLabels_display_class:
  assumes "l \<in> set riskLabels" and "risk res = Val l"
  shows "getRiskClass res \<in> {''risk-low'', ''risk-moderate'', ''risk-high''}
       \<and> getRiskClass res \<noteq> ''''
       \<and> (includesStr (toLowerCase l) ''very low risk'' \<or> includesStr (toLowerCase l) ''low risk''
            \<longrightarrow> getRiskClass res = ''risk-low'')
       \<and> (includesStr (toLowerCase l) ''moderate'' \<longrightarrow> getRiskClass res = ''risk-moderate'')
       \<and> ((includesStr (toLowerCase l) ''high risk'' \<or> includesStr (toLowerCase l) ''very high risk'')
            \<and> \<not> includesStr (toLowerCase l) ''moderate''
            \<longrightarrow> getRiskClass res = ''risk-high'')"
    (is ?goal)
proof -
  from assms(1) have "l = ''Very Low Risk'' \<or> l = ''Low Risk'' \<or> l = ''Moderate Risk''
      \<or> l = ''High Risk'' \<or> l = ''Very High Risk''"
    by (simp add: riskLabels_def)
  then show ?goal
  proof (elim disjE)
    assume l: "l = ''Very Low Risk''"
    with assms(2) have c: "getRiskClass res = ''risk-low''"
      by (simp add: getRiskClass_labels)
    show ?goal unfolding c l lower_labels by simp
  next
    assume l: "l = ''Low Risk''"
    with assms(2) have c: "getRiskClass res = ''risk-low''"
      by (simp add: getRiskClass_labels)
    show ?goal unfolding c l lower_labels by simp
  next
    assume l: "l = ''Moderate Risk''"
    with assms(2) have c: "getRiskClass res = ''risk-moderate''"
      by (simp add: getRiskClass_labels)
    show ?goal unfolding c l lower_labels by simp
  next
    assume l: "l = ''High Risk''"
    with assms(2) have c: "getRiskClass res = ''risk-high''"
      by (simp add: getRiskClass_labels)
    show ?goal unfolding c l lower_labels by simp
  next
    assume l: "l = ''Very High Risk''"
    with assms(2) have c: "getRiskClass res = ''risk-high''"
      by (simp add: getRiskClass_labels)
    show ?goal unfolding c l lower_labels by simp
  qed
qed

text \<open>The labels High Risk and Moderate Risk, in a result record that holds nothing else.\<close>

theorem riskLabels_display_class_witness:
  "''High Risk'' \<in> set riskLabels
   \<and> risk (emptyResults\<lparr>risk := Val ''High Risk''\<rparr>) = Val ''High Risk''
   \<and> includesStr (toLowerCase ''High Risk'') ''high risk''
   \<and> \<not> includesStr (toLowerCase ''High Risk'') ''moderate''
   \<and> getRiskClass (emptyResults\<lparr>risk := Val ''High Risk''\<rparr>) = ''risk-high''
   \<and> ''Moderate Risk'' \<in> set riskLabels
   \<and> risk (emptyResults\<lparr>risk := Val ''Moderate Risk''\<rparr>) = Val ''Moderate Risk''
   \<and> includesStr (toLowerCase ''Moderate Risk'') ''moderate''
   \<and> getRiskClass (emptyResults\<lparr>risk := Val ''Moderate Risk''\<rparr>) = ''risk-moderate''"
proof -
  let ?h = "emptyResults\<lparr>risk := Val ''High Risk''\<rparr>"
  let ?m = "emptyResults\<lparr>risk := Val ''Moderate Risk''\<rparr>"
  have h1: "''High Risk'' \<in> set riskLabels"
    by (simp add: riskLabels_def)
  have h2: "risk ?h = Val ''High Risk''"
    by simp
  have h3: "includesStr (toLowerCase ''High Risk'') ''high risk''"
    unfolding lower_labels by simp
  have h4: "\<not> includesStr (toLowerCase ''High Risk'') ''moderate''"
    unfolding lower_labels by simp
  have m1: "''Moderate Risk'' \<in> set riskLabels"
    by (simp add: riskLabels_def)
  have m2: "risk ?m = Val ''Moderate Risk''"
    by simp
  have m3: "includesStr (toLowerCase ''Moderate Risk'') ''moderate''"
    unfolding lower_labels by simp
  have h5: "getRiskClass ?h = ''risk-high''"
    using riskLabels_display_class [OF h1 h2] h3 h4 by blast
  have m5: "getRiskClass ?m = ''risk-moderate''"
    using riskLabels_display_class [OF m1 m2] m3 by blast
  show ?thesis
    by (intro conjI h1 h2 h3 h4 h5 m1 m2 m3 m5)
qed

section \<open>Confidence and threshold of the result record\<close>

lemma analyzeFile_success_results: "results (analyzeFile_success d st) = resultData d"
  by (simp add: analyzeFile_success_def)

lemma resultData_confidence: "confidence (resultData d) = confidencePercent (data_confidence d)"
  by (simp add: resultData_def Let_def)

lemma resultData_threshold:
  "threshold (resultData d) = nullish (data_threshold d) (Val (Num 0.5))"
  by (simp add: resultData_def Let_def)

text \<open>A \<^verbatim>\<open>null\<close> confidence is not \<^verbatim>\<open>undefined\<close> and compares as 0, so it takes the
  first branch: the displayed value is 0.\<close>

lemma confidencePercent_null: "confidencePercent Null = Val (Num 0)"
  by (simp add: confidencePercent_def)

text \<open>
  Claim C7. In the result record that \<^verbatim>\<open>analyzeFile\<close> stores for a response of
  /analyze, the displayed confidence is the raw confidence times 100 when the raw
  confidence is a number at most 1, the raw confidence itself when it is greater than
  1, and \<^verbatim>\<open>null\<close> when the response has no confidence; the threshold is 0.5 when the
  response has none.
\<close>

theorem confidence_percent_and_threshold:
  "(data_confidence d = Val (Num x) \<and> x \<le> 1 \<longrightarrow>
      confidence (results (analyzeFile_success d st)) = Val (Num (x * 100)))
   \<and> (data_confidence d = Val (Num x) \<and> 1 < x \<longrightarrow>
      confidence (results (analyzeFile_success d st)) = Val (Num x))
   \<and> (data_confidence d = Undefined \<longrightarrow>
      confidence (results (analyzeFile_success d st)) = Null)
   \<and> (data_threshold d = Undefined \<longrightarrow>
      threshold (results (analyzeFile_success d st)) = Val (Num 0.5))"
  by (simp add: analyzeFile_success_results resultData_confidence resultData_threshold
      confidencePercent_def)

text \<open>Responses with confidence 0.87, with confidence 87, and without any key.\<close>

theorem confidence_percent_and_threshold_witness:
  "confidence (results (analyzeFile_success
      (emptyResponse\<lparr>data_confidence := Val (Num 0.87)\<rparr>) initialState)) = Val (Num 87)
   \<and> confidence (results (analyzeFile_success
      (emptyResponse\<lparr>data_confidence := Val (Num 87)\<rparr>) initialState)) = Val (Num 87)
   \<and> confidence (results (analyzeFile_success emptyResponse initialState)) = Null
   \<and> threshold (results (analyzeFile_success emptyResponse initialState)) = Val (Num 0.5)"
  using
    confidence_percent_and_threshold
      [of "emptyResponse\<lparr>data_confidence := Val (Num 0.87)\<rparr>" "0.87" initialState]
    confidence_percent_and_threshold
      [of "emptyResponse\<lparr>data_confidence := Val (Num 87)\<rparr>" "87" initialState]
    confidence_percent_and_threshold [of emptyResponse 0 initialState]
  by (simp add: emptyResponse_def)

end
